theory Spec2Isabelle
  imports Main
begin

section \<open>SENSAI backend: validation, persistence mapping and quiz aggregation\<close>

text \<open>
  A shallow embedding of \<^verbatim>\<open>src/main.py\<close>: the request models \<^verbatim>\<open>QuizIn\<close> and
  \<^verbatim>\<open>ResumeIn\<close>, the handlers \<^verbatim>\<open>create_quiz_result\<close>, \<^verbatim>\<open>get_quiz_stats\<close>,
  \<^verbatim>\<open>get_recent_quizzes\<close>, \<^verbatim>\<open>upsert_resume\<close> and \<^verbatim>\<open>get_resume\<close>, and the document
  store they read and write.

  Conventions of the embedding.
  \<^item> An instant is a natural number: the microseconds elapsed since \<^verbatim>\<open>datetime.min\<close>,
    in UTC. A \<^verbatim>\<open>datetime\<close> is an instant that is either naive or timezone-aware.
  \<^item> Every call of \<^verbatim>\<open>datetime.now(timezone.utc)\<close> is a read of the wall clock. A handler
    that reads the clock twice takes the two readings as its first two arguments, in
    program order; nothing is assumed about how they compare.
  \<^item> A document is a Python \<^verbatim>\<open>dict\<close>. It is a record whose fields are the keys the
    handlers write or read, each of them optional: \<open>None\<close> is an absent key, \<open>Some v\<close> a
    key bound to a value of the type the write path stores there. In a handler the two
    timestamps are \<^verbatim>\<open>datetime\<close> values; in the store, which is MongoDB, they are BSON
    dates, whole milliseconds.
  \<^item> The module-level handle \<^verbatim>\<open>db\<close> is \<open>None\<close> when the store is not configured; the
    state threaded through the handlers is that handle.
  \<^item> An exception is the left injection of a sum; a handler returns its response together
    with the state it leaves.
\<close>

subsection \<open>Instants, errors and numbers\<close>

type_synonym micros = nat

type_synonym millis = nat

datatype datetime =
    Naive micros
  | Aware micros

text \<open>\<^verbatim>\<open>datetime.min\<close> carries no time zone.\<close>

definition datetime_min :: datetime where
  "datetime_min = Naive 0"

fun instant :: "datetime \<Rightarrow> micros" where
  "instant (Naive t) = t"
| "instant (Aware t) = t"

fun is_aware :: "datetime \<Rightarrow> bool" where
  "is_aware (Naive t) = False"
| "is_aware (Aware t) = True"

text \<open>
  The driver writes a \<^verbatim>\<open>datetime\<close> as a BSON date, the whole milliseconds of its UTC
  instant (a naive value is taken as UTC), and reads a BSON date back as a naive
  \<^verbatim>\<open>datetime\<close> in UTC.
\<close>

fun bson_of_datetime :: "datetime \<Rightarrow> millis" where
  "bson_of_datetime (Naive t) = t div 1000"
| "bson_of_datetime (Aware t) = t div 1000"

definition datetime_of_bson :: "millis \<Rightarrow> datetime" where
  "datetime_of_bson ms = Naive (ms * 1000)"

text \<open>
  \<^verbatim>\<open>TypeError\<close> is what Python raises when it orders a naive \<^verbatim>\<open>datetime\<close> against an
  aware one.
\<close>

datatype error =
    ValidationError
  | HTTPException nat string
  | StorageUnavailable
  | TypeError

text \<open>
  The value bound to \<^verbatim>\<open>average_score\<close>: the integer literal of the zero state, or the
  float \<^verbatim>\<open>round(s / n, 2)\<close>. The float is kept as its two integer operands: IEEE division
  and decimal rounding are not evaluated here.
\<close>

datatype number =
    PyInt int
  | PyRound2 int nat

subsection \<open>Request models\<close>

text \<open>
  A JSON body before validation: every field may be missing (\<open>None\<close>). For a field
  declared \<^verbatim>\<open>Optional[str] = None\<close> a missing field and an explicit \<^verbatim>\<open>null\<close> both read
  as \<open>None\<close>.
\<close>

record QuizBody =
  body_user_id :: "string option"
  body_score :: "int option"
  body_total_questions :: "int option"
  body_correct_answers :: "int option"
  body_feedback :: "string option"

record QuizIn =
  user_id :: string
  score :: int
  total_questions :: int
  correct_answers :: int
  feedback :: "string option"

record ResumeExperience =
  company :: string
  role :: string
  exp_start :: string
  exp_end :: string
  description :: "string option"

record ResumeEducation =
  school :: string
  degree :: string
  edu_start :: string
  edu_end :: string
  details :: "string option"

record ResumeProject =
  name :: string
  link :: "string option"
  proj_description :: "string option"

record ResumeBody =
  rbody_user_id :: "string option"
  rbody_email :: "string option"
  rbody_linkedin :: "string option"
  rbody_twitter :: "string option"
  rbody_summary :: "string option"
  rbody_skills :: "string list option"
  rbody_experiences :: "ResumeExperience list option"
  rbody_education :: "ResumeEducation list option"
  rbody_projects :: "ResumeProject list option"

record ResumeIn =
  r_user_id :: string
  email :: "string option"
  linkedin :: "string option"
  twitter :: "string option"
  summary :: "string option"
  skills :: "string list"
  experiences :: "ResumeExperience list"
  education :: "ResumeEducation list"
  projects :: "ResumeProject list"

text \<open>
  \<^verbatim>\<open>QuizIn\<close>: \<^verbatim>\<open>user_id: str\<close> is required and carries no further constraint;
  \<^verbatim>\<open>score\<close> has \<^verbatim>\<open>ge=0, le=100\<close>, \<^verbatim>\<open>total_questions\<close> has \<^verbatim>\<open>ge=1\<close>,
  \<^verbatim>\<open>correct_answers\<close> has \<^verbatim>\<open>ge=0\<close>, all three required; \<^verbatim>\<open>feedback\<close> defaults to
  \<^verbatim>\<open>None\<close>.
\<close>

definition validate_QuizIn :: "QuizBody \<Rightarrow> error + QuizIn" where
  "validate_QuizIn b =
     (case body_user_id b of
        None \<Rightarrow> Inl ValidationError
      | Some u \<Rightarrow>
     (case body_score b of
        None \<Rightarrow> Inl ValidationError
      | Some s \<Rightarrow>
     (case body_total_questions b of
        None \<Rightarrow> Inl ValidationError
      | Some t \<Rightarrow>
     (case body_correct_answers b of
        None \<Rightarrow> Inl ValidationError
      | Some c \<Rightarrow>
          if 0 \<le> s \<and> s \<le> 100 \<and> 1 \<le> t \<and> 0 \<le> c
          then Inr \<lparr>user_id = u, score = s, total_questions = t,
                    correct_answers = c, feedback = body_feedback b\<rparr>
          else Inl ValidationError))))"

text \<open>
  \<^verbatim>\<open>ResumeIn\<close>: \<^verbatim>\<open>user_id: str\<close> is required; the scalar fields default to \<^verbatim>\<open>None\<close>
  and the four lists to \<^verbatim>\<open>[]\<close>. The entries of the lists are taken as already shaped
  sub-records.
\<close>

definition list_default :: "'a list option \<Rightarrow> 'a list" where
  "list_default v = (case v of None \<Rightarrow> [] | Some xs \<Rightarrow> xs)"

definition validate_ResumeIn :: "ResumeBody \<Rightarrow> error + ResumeIn" where
  "validate_ResumeIn b =
     (case rbody_user_id b of
        None \<Rightarrow> Inl ValidationError
      | Some u \<Rightarrow>
          Inr \<lparr>r_user_id = u, email = rbody_email b, linkedin = rbody_linkedin b,
               twitter = rbody_twitter b, summary = rbody_summary b,
               skills = list_default (rbody_skills b),
               experiences = list_default (rbody_experiences b),
               education = list_default (rbody_education b),
               projects = list_default (rbody_projects b)\<rparr>)"

subsection \<open>Documents and the store\<close>

text \<open>
  The two kinds of document, with the type \<open>'t\<close> of their timestamps as a parameter:
  \<open>datetime\<close> for the dict a handler builds or receives, \<open>millis\<close> for the document the
  store keeps.
\<close>

record 't QuizDoc =
  doc_user_id :: "string option"
  doc_score :: "int option"
  doc_total_questions :: "int option"
  doc_correct_answers :: "int option"
  doc_feedback :: "string option option"
  doc_created_at :: "'t option"
  doc_updated_at :: "'t option"

record 't ResumeDoc =
  rdoc_user_id :: "string option"
  rdoc_email :: "string option option"
  rdoc_linkedin :: "string option option"
  rdoc_twitter :: "string option option"
  rdoc_summary :: "string option option"
  rdoc_skills :: "string list option"
  rdoc_experiences :: "ResumeExperience list option"
  rdoc_education :: "ResumeEducation list option"
  rdoc_projects :: "ResumeProject list option"
  rdoc_updated_at :: "'t option"
  rdoc_created_at :: "'t option"

text \<open>The two collections, each in the store's own order.\<close>

record database =
  quiz :: "millis QuizDoc list"
  resume :: "millis ResumeDoc list"

type_synonym db = "database option"

text \<open>What the driver does to a document on its way to the store and back.\<close>

definition QuizDoc_to_bson :: "datetime QuizDoc \<Rightarrow> millis QuizDoc" where
  "QuizDoc_to_bson x =
     \<lparr>doc_user_id = doc_user_id x, doc_score = doc_score x,
      doc_total_questions = doc_total_questions x,
      doc_correct_answers = doc_correct_answers x,
      doc_feedback = doc_feedback x,
      doc_created_at = map_option bson_of_datetime (doc_created_at x),
      doc_updated_at = map_option bson_of_datetime (doc_updated_at x)\<rparr>"

definition QuizDoc_from_bson :: "millis QuizDoc \<Rightarrow> datetime QuizDoc" where
  "QuizDoc_from_bson x =
     \<lparr>doc_user_id = doc_user_id x, doc_score = doc_score x,
      doc_total_questions = doc_total_questions x,
      doc_correct_answers = doc_correct_answers x,
      doc_feedback = doc_feedback x,
      doc_created_at = map_option datetime_of_bson (doc_created_at x),
      doc_updated_at = map_option datetime_of_bson (doc_updated_at x)\<rparr>"

definition ResumeDoc_to_bson :: "datetime ResumeDoc \<Rightarrow> millis ResumeDoc" where
  "ResumeDoc_to_bson x =
     \<lparr>rdoc_user_id = rdoc_user_id x, rdoc_email = rdoc_email x,
      rdoc_linkedin = rdoc_linkedin x, rdoc_twitter = rdoc_twitter x,
      rdoc_summary = rdoc_summary x, rdoc_skills = rdoc_skills x,
      rdoc_experiences = rdoc_experiences x, rdoc_education = rdoc_education x,
      rdoc_projects = rdoc_projects x,
      rdoc_updated_at = map_option bson_of_datetime (rdoc_updated_at x),
      rdoc_created_at = map_option bson_of_datetime (rdoc_created_at x)\<rparr>"

definition ResumeDoc_from_bson :: "millis ResumeDoc \<Rightarrow> datetime ResumeDoc" where
  "ResumeDoc_from_bson x =
     \<lparr>rdoc_user_id = rdoc_user_id x, rdoc_email = rdoc_email x,
      rdoc_linkedin = rdoc_linkedin x, rdoc_twitter = rdoc_twitter x,
      rdoc_summary = rdoc_summary x, rdoc_skills = rdoc_skills x,
      rdoc_experiences = rdoc_experiences x, rdoc_education = rdoc_education x,
      rdoc_projects = rdoc_projects x,
      rdoc_updated_at = map_option datetime_of_bson (rdoc_updated_at x),
      rdoc_created_at = map_option datetime_of_bson (rdoc_created_at x)\<rparr>"

text \<open>\<^verbatim>\<open>payload.model_dump()\<close>: a dict with exactly the declared fields of the model.\<close>

definition QuizIn_model_dump :: "QuizIn \<Rightarrow> datetime QuizDoc" where
  "QuizIn_model_dump p =
     \<lparr>doc_user_id = Some (user_id p), doc_score = Some (score p),
      doc_total_questions = Some (total_questions p),
      doc_correct_answers = Some (correct_answers p),
      doc_feedback = Some (feedback p),
      doc_created_at = None, doc_updated_at = None\<rparr>"

definition ResumeIn_model_dump :: "ResumeIn \<Rightarrow> datetime ResumeDoc" where
  "ResumeIn_model_dump p =
     \<lparr>rdoc_user_id = Some (r_user_id p), rdoc_email = Some (email p),
      rdoc_linkedin = Some (linkedin p), rdoc_twitter = Some (twitter p),
      rdoc_summary = Some (summary p), rdoc_skills = Some (skills p),
      rdoc_experiences = Some (experiences p), rdoc_education = Some (education p),
      rdoc_projects = Some (projects p),
      rdoc_updated_at = None, rdoc_created_at = None\<rparr>"

text \<open>
  Modelled from the spec: \<^verbatim>\<open>create_document\<close> of the module \<^verbatim>\<open>database\<close>, which is not
  among the sources. "Appends a new document to the quiz collection. Never fails with a
  uniqueness conflict. Fails with StorageUnavailable if the store is unreachable or not
  configured." The document is appended as the driver writes it. The record id is
  opaque; here it is the position the document takes.
\<close>

definition create_document :: "datetime QuizDoc \<Rightarrow> db \<Rightarrow> (error + nat) \<times> db" where
  "create_document doc s =
     (case s of
        None \<Rightarrow> (Inl StorageUnavailable, None)
      | Some d \<Rightarrow>
          (Inr (length (quiz d)), Some (d\<lparr>quiz := quiz d @ [QuizDoc_to_bson doc]\<rparr>)))"

text \<open>
  Modelled from the spec: \<^verbatim>\<open>get_documents\<close> of the module \<^verbatim>\<open>database\<close>, which is not
  among the sources, called on the collection \<^verbatim>\<open>"quiz"\<close> with the filter
  \<^verbatim>\<open>{"user_id": user_id}\<close>. "Reads all QuizResult records for user_id" when no limit is
  passed, and "reads up to limit records for user_id" otherwise: the matching documents
  in the store's order, cut after \<open>limit\<close> of them. The spec orders what is read against
  the earliest instant ("records lacking a created_at sort as the earliest possible
  instant"), so the documents come back as the driver reads them by default, their dates
  naive.
\<close>

definition get_documents :: "string \<Rightarrow> int option \<Rightarrow> db \<Rightarrow> error + datetime QuizDoc list" where
  "get_documents uid limit s =
     (case s of
        None \<Rightarrow> Inl StorageUnavailable
      | Some d \<Rightarrow>
          (let found = filter (\<lambda>x. doc_user_id x = Some uid) (quiz d)
           in Inr (map QuizDoc_from_bson
                     (case limit of None \<Rightarrow> found | Some l \<Rightarrow> take (nat l) found))))"

subsection \<open>Quiz endpoints\<close>

text \<open>
  \<^verbatim>\<open>create_quiz_result\<close>: the two assignments of lines 81 and 82 read the clock one after
  the other; \<open>now1\<close> is the reading bound to \<^verbatim>\<open>created_at\<close>, \<open>now2\<close> the one bound to
  \<^verbatim>\<open>updated_at\<close>. Both values are aware, in UTC.
\<close>

definition create_quiz_result :: "micros \<Rightarrow> micros \<Rightarrow> QuizIn \<Rightarrow> db \<Rightarrow> (error + nat) \<times> db" where
  "create_quiz_result now1 now2 payload s =
     (let doc = QuizIn_model_dump payload;
          doc = doc\<lparr>doc_created_at := Some (Aware now1)\<rparr>;
          doc = doc\<lparr>doc_updated_at := Some (Aware now2)\<rparr>
      in create_document doc s)"

text \<open>
  \<^verbatim>\<open>POST /api/quiz\<close>: the framework validates the body against \<^verbatim>\<open>QuizIn\<close> and calls the
  handler only with a valid payload.
\<close>

definition post_api_quiz :: "micros \<Rightarrow> micros \<Rightarrow> QuizBody \<Rightarrow> db \<Rightarrow> (error + nat) \<times> db" where
  "post_api_quiz now1 now2 body s =
     (case validate_QuizIn body of
        Inl e \<Rightarrow> (Inl e, s)
      | Inr payload \<Rightarrow> create_quiz_result now1 now2 payload s)"

record QuizStats =
  average_score :: number
  stats_total_questions :: int
  latest_score :: int
  count :: nat

text \<open>\<^verbatim>\<open>it.get("score", 0)\<close>, \<^verbatim>\<open>it.get("total_questions", 0)\<close> and the sort key
  \<^verbatim>\<open>x.get("created_at", datetime.min)\<close>.\<close>

definition get_score :: "'t QuizDoc \<Rightarrow> int" where
  "get_score it = (case doc_score it of None \<Rightarrow> 0 | Some v \<Rightarrow> v)"

definition get_total_questions :: "'t QuizDoc \<Rightarrow> int" where
  "get_total_questions it = (case doc_total_questions it of None \<Rightarrow> 0 | Some v \<Rightarrow> v)"

definition created_at_key :: "datetime QuizDoc \<Rightarrow> datetime" where
  "created_at_key x = (case doc_created_at x of None \<Rightarrow> datetime_min | Some t \<Rightarrow> t)"

text \<open>
  Python's \<^verbatim>\<open>sorted\<close> on \<^verbatim>\<open>datetime\<close> keys. Ordering a naive key against an aware one
  raises \<^verbatim>\<open>TypeError\<close>, and a sort of keys of both kinds has to order two such keys, so
  it raises; keys of one kind are ordered by their instants. The sort is stable, as
  \<open>sort_key\<close> is. With \<^verbatim>\<open>reverse=True\<close> it reverses the list, sorts it and reverses the
  result, so that documents with equal keys keep their original order.
\<close>

definition mixed_keys :: "('a \<Rightarrow> datetime) \<Rightarrow> 'a list \<Rightarrow> bool" where
  "mixed_keys key xs =
     (list_ex (\<lambda>x. is_aware (key x)) xs \<and> list_ex (\<lambda>x. \<not> is_aware (key x)) xs)"

definition sorted_py :: "('a \<Rightarrow> datetime) \<Rightarrow> 'a list \<Rightarrow> error + 'a list" where
  "sorted_py key xs =
     (if mixed_keys key xs then Inl TypeError
      else Inr (sort_key (\<lambda>x. instant (key x)) xs))"

definition sorted_py_reverse :: "('a \<Rightarrow> datetime) \<Rightarrow> 'a list \<Rightarrow> error + 'a list" where
  "sorted_py_reverse key xs =
     (if mixed_keys key xs then Inl TypeError
      else Inr (rev (sort_key (\<lambda>x. instant (key x)) (rev xs))))"

definition get_quiz_stats :: "string \<Rightarrow> db \<Rightarrow> error + QuizStats" where
  "get_quiz_stats uid s =
     (case get_documents uid None s of
        Inl e \<Rightarrow> Inl e
      | Inr items \<Rightarrow>
          if items = [] then
            Inr \<lparr>average_score = PyInt 0, stats_total_questions = 0,
                 latest_score = 0, count = 0\<rparr>
          else
            (let scores = map get_score items;
                 total = sum_list (map get_total_questions items)
             in case sorted_py created_at_key items of
                  Inl e \<Rightarrow> Inl e
                | Inr ordered \<Rightarrow>
                    (let latest = last ordered
                     in Inr \<lparr>average_score = PyRound2 (sum_list scores) (length scores),
                             stats_total_questions = total,
                             latest_score = get_score latest,
                             count = length items\<rparr>)))"

definition get_recent_quizzes :: "string \<Rightarrow> int \<Rightarrow> db \<Rightarrow> error + datetime QuizDoc list" where
  "get_recent_quizzes uid limit s =
     (case get_documents uid (Some limit) s of
        Inl e \<Rightarrow> Inl e
      | Inr items \<Rightarrow>
          (case sorted_py_reverse created_at_key items of
             Inl e \<Rightarrow> Inl e
           | Inr items_sorted \<Rightarrow> Inr items_sorted))"

text \<open>The query parameter \<^verbatim>\<open>limit: int = 5\<close> left out of the request.\<close>

definition get_recent_quizzes_default :: "string \<Rightarrow> db \<Rightarrow> error + datetime QuizDoc list" where
  "get_recent_quizzes_default uid s = get_recent_quizzes uid 5 s"

subsection \<open>Resume endpoints\<close>

text \<open>
  \<^verbatim>\<open>dict.setdefault("created_at", v)\<close>: binds the key only when the dict does not have
  it.
\<close>

definition setdefault_created_at :: "'t ResumeDoc \<Rightarrow> 't \<Rightarrow> 't ResumeDoc" where
  "setdefault_created_at d v =
     (case rdoc_created_at d of
        None \<Rightarrow> d\<lparr>rdoc_created_at := Some v\<rparr>
      | Some _ \<Rightarrow> d)"

text \<open>
  The update operator \<^verbatim>\<open>{"$set": upd}\<close> applied to a stored document: every key of
  \<open>upd\<close> is bound to its new value, every other key of the document is kept.
\<close>

definition set_key :: "'a option \<Rightarrow> 'a option \<Rightarrow> 'a option" where
  "set_key old new = (case new of None \<Rightarrow> old | Some v \<Rightarrow> Some v)"

definition set_fields :: "'t ResumeDoc \<Rightarrow> 't ResumeDoc \<Rightarrow> 't ResumeDoc" where
  "set_fields x upd =
     \<lparr>rdoc_user_id = set_key (rdoc_user_id x) (rdoc_user_id upd),
      rdoc_email = set_key (rdoc_email x) (rdoc_email upd),
      rdoc_linkedin = set_key (rdoc_linkedin x) (rdoc_linkedin upd),
      rdoc_twitter = set_key (rdoc_twitter x) (rdoc_twitter upd),
      rdoc_summary = set_key (rdoc_summary x) (rdoc_summary upd),
      rdoc_skills = set_key (rdoc_skills x) (rdoc_skills upd),
      rdoc_experiences = set_key (rdoc_experiences x) (rdoc_experiences upd),
      rdoc_education = set_key (rdoc_education x) (rdoc_education upd),
      rdoc_projects = set_key (rdoc_projects x) (rdoc_projects upd),
      rdoc_updated_at = set_key (rdoc_updated_at x) (rdoc_updated_at upd),
      rdoc_created_at = set_key (rdoc_created_at x) (rdoc_created_at upd)\<rparr>"

definition filter_doc :: "string \<Rightarrow> 't ResumeDoc" where
  "filter_doc uid =
     \<lparr>rdoc_user_id = Some uid, rdoc_email = None, rdoc_linkedin = None,
      rdoc_twitter = None, rdoc_summary = None, rdoc_skills = None,
      rdoc_experiences = None, rdoc_education = None, rdoc_projects = None,
      rdoc_updated_at = None, rdoc_created_at = None\<rparr>"

text \<open>
  \<^verbatim>\<open>coll.update_one({"user_id": uid}, {"$set": upd}, upsert=True)\<close>, on the update as the
  driver writes it: the first document of the collection whose \<^verbatim>\<open>user_id\<close> is \<open>uid\<close> is
  updated in place; when there is none, a document made of the filter's equality and of
  those keys is added.
\<close>

fun update_one :: "string \<Rightarrow> millis ResumeDoc \<Rightarrow> millis ResumeDoc list \<Rightarrow> millis ResumeDoc list" where
  "update_one uid upd [] = [set_fields (filter_doc uid) upd]"
| "update_one uid upd (x # xs) =
     (if rdoc_user_id x = Some uid then set_fields x upd # xs
      else x # update_one uid upd xs)"

text \<open>
  \<^verbatim>\<open>upsert_resume\<close>: \<open>now1\<close> is the clock reading assigned to \<^verbatim>\<open>updated_at\<close>, \<open>now2\<close>
  the one passed to \<^verbatim>\<open>setdefault\<close> (Python evaluates the argument whether or not the key
  is there).
\<close>

definition upsert_resume :: "micros \<Rightarrow> micros \<Rightarrow> ResumeIn \<Rightarrow> db \<Rightarrow> (error + bool) \<times> db" where
  "upsert_resume now1 now2 payload s =
     (case s of
        None \<Rightarrow> (Inl (HTTPException 500 ''Database not configured''), s)
      | Some d \<Rightarrow>
          (let payload_dict = ResumeIn_model_dump payload;
               payload_dict = payload_dict\<lparr>rdoc_updated_at := Some (Aware now1)\<rparr>;
               payload_dict = setdefault_created_at payload_dict (Aware now2)
           in (Inr True,
               Some (d\<lparr>resume := update_one (r_user_id payload)
                                    (ResumeDoc_to_bson payload_dict) (resume d)\<rparr>))))"

definition post_api_resume :: "micros \<Rightarrow> micros \<Rightarrow> ResumeBody \<Rightarrow> db \<Rightarrow> (error + bool) \<times> db" where
  "post_api_resume now1 now2 body s =
     (case validate_ResumeIn body of
        Inl e \<Rightarrow> (Inl e, s)
      | Inr payload \<Rightarrow> upsert_resume now1 now2 payload s)"

text \<open>\<^verbatim>\<open>get_resume\<close>: \<^verbatim>\<open>find_one\<close> gives the first matching document, and the handler
  answers the empty object when there is none.\<close>

definition get_resume :: "string \<Rightarrow> db \<Rightarrow> error + datetime ResumeDoc option" where
  "get_resume uid s =
     (case s of
        None \<Rightarrow> Inl (HTTPException 500 ''Database not configured'')
      | Some d \<Rightarrow>
          Inr (map_option ResumeDoc_from_bson
                 (find (\<lambda>x. rdoc_user_id x = Some uid) (resume d))))"

text \<open>The documents of a user in each collection.\<close>

definition quiz_of :: "string \<Rightarrow> database \<Rightarrow> millis QuizDoc list" where
  "quiz_of uid d = filter (\<lambda>x. doc_user_id x = Some uid) (quiz d)"

definition resume_of :: "string \<Rightarrow> database \<Rightarrow> millis ResumeDoc list" where
  "resume_of uid d = filter (\<lambda>x. rdoc_user_id x = Some uid) (resume d)"

text \<open>
  The stored created_at of a quiz record, in the words of the specification: the
  milliseconds of its created_at, and for a record lacking the key the earliest possible
  instant.
\<close>

definition stored_created_at :: "millis QuizDoc \<Rightarrow> millis" where
  "stored_created_at x = (case doc_created_at x of None \<Rightarrow> 0 | Some ms \<Rightarrow> ms)"

text \<open>
  The update that \<^verbatim>\<open>upsert_resume\<close> hands to \<^verbatim>\<open>update_one\<close>, once both timestamps are
  bound and the driver has written it.
\<close>

definition resume_fields :: "micros \<Rightarrow> micros \<Rightarrow> ResumeIn \<Rightarrow> millis ResumeDoc" where
  "resume_fields now1 now2 p =
     ResumeDoc_to_bson
       ((ResumeIn_model_dump p)\<lparr>rdoc_updated_at := Some (Aware now1),
                                 rdoc_created_at := Some (Aware now2)\<rparr>)"

subsection \<open>Sample requests and documents\<close>

definition empty_database :: database where
  "empty_database = \<lparr>quiz = [], resume = []\<rparr>"

definition quiz_body :: "string \<Rightarrow> int \<Rightarrow> int \<Rightarrow> int \<Rightarrow> QuizBody" where
  "quiz_body u s t c =
     \<lparr>body_user_id = Some u, body_score = Some s, body_total_questions = Some t,
      body_correct_answers = Some c, body_feedback = None\<rparr>"

definition quiz_in :: "string \<Rightarrow> int \<Rightarrow> QuizIn" where
  "quiz_in u s =
     \<lparr>user_id = u, score = s, total_questions = 10, correct_answers = 5, feedback = None\<rparr>"

definition quiz_doc :: "string \<Rightarrow> int option \<Rightarrow> 't option \<Rightarrow> 't option \<Rightarrow> 't QuizDoc" where
  "quiz_doc u s c t =
     \<lparr>doc_user_id = Some u, doc_score = s, doc_total_questions = Some 10,
      doc_correct_answers = Some 5, doc_feedback = Some None,
      doc_created_at = c, doc_updated_at = t\<rparr>"

definition resume_body :: "string \<Rightarrow> string option \<Rightarrow> string list option \<Rightarrow> ResumeBody" where
  "resume_body u e sk =
     \<lparr>rbody_user_id = Some u, rbody_email = e, rbody_linkedin = None, rbody_twitter = None,
      rbody_summary = None, rbody_skills = sk, rbody_experiences = None,
      rbody_education = None, rbody_projects = None\<rparr>"

definition resume_in :: "string \<Rightarrow> string option \<Rightarrow> string list \<Rightarrow> ResumeIn" where
  "resume_in u e sk =
     \<lparr>r_user_id = u, email = e, linkedin = None, twitter = None, summary = None,
      skills = sk, experiences = [], education = [], projects = []\<rparr>"

definition resume_doc :: "string \<Rightarrow> string option \<Rightarrow> string list \<Rightarrow> 't option \<Rightarrow> 't option \<Rightarrow> 't ResumeDoc" where
  "resume_doc u e sk upd crt =
     \<lparr>rdoc_user_id = Some u, rdoc_email = Some e, rdoc_linkedin = Some None,
      rdoc_twitter = Some None, rdoc_summary = Some None, rdoc_skills = Some sk,
      rdoc_experiences = Some [], rdoc_education = Some [], rdoc_projects = Some [],
      rdoc_updated_at = upd, rdoc_created_at = crt\<rparr>"

section \<open>Properties\<close>

subsection \<open>Sorting\<close>

lemma last_filter_last: "xs \<noteq> [] \<Longrightarrow> P (last xs) \<Longrightarrow> last (filter P xs) = last xs"
  by (induction xs) (auto split: if_splits simp: filter_empty_conv)

lemma sorted_last_Max:
  fixes ks :: "nat list"
  assumes "sorted ks" "ks \<noteq> []"
  shows "last ks = Max (set ks)"
proof -
  have "\<forall>k \<in> set ks. k \<le> last ks"
    using assms by (induction ks) (auto split: if_splits)
  then show ?thesis using assms by (intro Max_eqI [symmetric]) auto
qed

text \<open>
  The last element of a stable ascending sort is, among the elements with the greatest
  key, the one that stood last in the input.
\<close>

lemma last_sort_key:
  fixes f :: "'a \<Rightarrow> nat"
  assumes "xs \<noteq> []"
  shows "last (sort_key f xs) = last (filter (\<lambda>x. f x = Max (f ` set xs)) xs)"
proof -
  let ?ys = "sort_key f xs"
  let ?M = "Max (f ` set xs)"
  have ne: "?ys \<noteq> []" using assms by (metis length_sort length_0_conv)
  have "last (map f ?ys) = Max (set (map f ?ys))"
    by (rule sorted_last_Max) (simp_all add: ne)
  then have "f (last ?ys) = ?M" using ne by (simp add: last_map)
  then have "last (filter (\<lambda>x. f x = ?M) ?ys) = last ?ys"
    using ne by (intro last_filter_last) auto
  then show ?thesis by (simp add: sort_key_stable)
qed

text \<open>The last element that satisfies a predicate, by its position.\<close>

lemma last_filter_nth:
  assumes "\<exists>x \<in> set xs. P x"
  shows "\<exists>k < length xs. last (filter P xs) = xs ! k \<and> P (xs ! k) \<and>
           (\<forall>j. k < j \<and> j < length xs \<longrightarrow> \<not> P (xs ! j))"
  using assms
proof (induction xs rule: rev_induct)
  case Nil
  then show ?case by simp
next
  case (snoc a xs)
  show ?case
  proof (cases "P a")
    case True
    then show ?thesis
      by (intro exI [of _ "length xs"]) auto
  next
    case False
    with snoc.prems have "\<exists>x \<in> set xs. P x" by auto
    then obtain k where k: "k < length xs" "last (filter P xs) = xs ! k" "P (xs ! k)"
      "\<forall>j. k < j \<and> j < length xs \<longrightarrow> \<not> P (xs ! j)"
      using snoc.IH by blast
    have "\<not> P ((xs @ [a]) ! j)" if "k < j" "j < length (xs @ [a])" for j
      using that k(4) False by (cases "j < length xs") (auto simp: nth_append)
    with k False show ?thesis
      by (intro exI [of _ k]) (simp add: nth_append)
  qed
qed

text \<open>The greatest key and the position of the last element that has it.\<close>

lemma last_sort_key_nth:
  fixes f :: "'a \<Rightarrow> nat"
  assumes "xs \<noteq> []"
  shows "\<exists>k < length xs. last (sort_key f xs) = xs ! k \<and>
           (\<forall>j < length xs. f (xs ! j) \<le> f (xs ! k)) \<and>
           (\<forall>j. k < j \<and> j < length xs \<longrightarrow> f (xs ! j) < f (xs ! k))"
proof -
  let ?M = "Max (f ` set xs)"
  have "?M \<in> f ` set xs" using assms by (intro Max_in) auto
  then have "\<exists>x \<in> set xs. f x = ?M" by auto
  then obtain k where k: "k < length xs" "last (filter (\<lambda>x. f x = ?M) xs) = xs ! k"
    "f (xs ! k) = ?M" "\<forall>j. k < j \<and> j < length xs \<longrightarrow> f (xs ! j) \<noteq> ?M"
    using last_filter_nth [of xs "\<lambda>x. f x = ?M"] by blast
  have le: "f (xs ! j) \<le> ?M" if "j < length xs" for j
    using that by (intro Max_ge) auto
  have "f (xs ! j) < ?M" if "k < j" "j < length xs" for j
    using le [OF that(2)] k(4) that by (simp add: order_less_le)
  with k le show ?thesis
    by (intro exI [of _ k]) (simp add: last_sort_key [OF assms])
qed

lemma insort_key_map:
  "insort_key f (g x) (map g xs) = map g (insort_key (\<lambda>y. f (g y)) x xs)"
  by (induction xs) simp_all

lemma sort_key_map: "sort_key f (map g xs) = map g (sort_key (\<lambda>y. f (g y)) xs)"
  by (induction xs) (simp_all add: insort_key_map)

lemma Max_times_1000:
  fixes f :: "'a \<Rightarrow> nat"
  assumes "xs \<noteq> []"
  shows "Max ((\<lambda>x. f x * 1000) ` set xs) = Max (f ` set xs) * 1000"
proof -
  have "mono (\<lambda>n::nat. n * 1000)" by (simp add: mono_def)
  then have "Max (f ` set xs) * 1000 = Max ((\<lambda>n. n * 1000) ` (f ` set xs))"
    using assms by (intro mono_Max_commute) auto
  then show ?thesis by (simp add: image_image)
qed

subsection \<open>What the store gives back\<close>

lemma from_bson_fields [simp]:
  "doc_user_id (QuizDoc_from_bson x) = doc_user_id x"
  "doc_score (QuizDoc_from_bson x) = doc_score x"
  "doc_total_questions (QuizDoc_from_bson x) = doc_total_questions x"
  "doc_created_at (QuizDoc_from_bson x) = map_option datetime_of_bson (doc_created_at x)"
  by (simp_all add: QuizDoc_from_bson_def)

lemma get_score_from_bson [simp]: "get_score (QuizDoc_from_bson x) = get_score x"
  by (simp add: get_score_def)

lemma get_total_questions_from_bson [simp]:
  "get_total_questions (QuizDoc_from_bson x) = get_total_questions x"
  by (simp add: get_total_questions_def)

text \<open>The sort key of a document read from the store is naive, at its stored instant.\<close>

lemma created_at_key_naive: "\<not> is_aware (created_at_key (QuizDoc_from_bson x))"
  by (simp add: created_at_key_def datetime_min_def datetime_of_bson_def split: option.splits)

lemma created_at_key_instant:
  "instant (created_at_key (QuizDoc_from_bson x)) = stored_created_at x * 1000"
  by (simp add: created_at_key_def stored_created_at_def datetime_min_def datetime_of_bson_def
      split: option.splits)

lemma not_mixed_from_bson: "\<not> mixed_keys created_at_key (map QuizDoc_from_bson xs)"
  by (simp add: mixed_keys_def list_ex_iff created_at_key_naive)

text \<open>The sort does raise when a naive key stands beside an aware one.\<close>

lemma sorted_py_mixed:
  "sorted_py created_at_key
     [quiz_doc ''u'' (Some 70) (Some (Aware 1000)) None, quiz_doc ''u'' (Some 80) None None]
   = Inl TypeError"
  by (simp add: sorted_py_def mixed_keys_def created_at_key_def quiz_doc_def datetime_min_def)

lemma sorted_py_from_bson:
  "sorted_py created_at_key (map QuizDoc_from_bson xs) =
     Inr (map QuizDoc_from_bson (sort_key (\<lambda>x. stored_created_at x * 1000) xs))"
  by (simp add: sorted_py_def not_mixed_from_bson sort_key_map created_at_key_instant)

lemma sorted_py_reverse_from_bson:
  "sorted_py_reverse created_at_key (map QuizDoc_from_bson xs) =
     Inr (map QuizDoc_from_bson (rev (sort_key (\<lambda>x. stored_created_at x * 1000) (rev xs))))"
  by (simp add: sorted_py_reverse_def not_mixed_from_bson sort_key_map created_at_key_instant
      rev_map)

lemma sum_get_score: "sum_list (map get_score xs) = sum_list (List.map_filter doc_score xs)"
  by (induction xs) (auto simp: get_score_def split: option.splits)

lemma get_documents_all:
  "get_documents uid None (Some d) = Inr (map QuizDoc_from_bson (quiz_of uid d))"
  by (simp add: get_documents_def quiz_of_def)

lemma get_documents_limit:
  "get_documents uid (Some l) (Some d) =
     Inr (map QuizDoc_from_bson (take (nat l) (quiz_of uid d)))"
  by (simp add: get_documents_def quiz_of_def)

lemma get_quiz_stats_nonempty:
  "quiz_of uid d \<noteq> [] \<Longrightarrow> get_quiz_stats uid (Some d) =
     Inr \<lparr>average_score =
            PyRound2 (sum_list (map get_score (quiz_of uid d))) (length (quiz_of uid d)),
          stats_total_questions = sum_list (map get_total_questions (quiz_of uid d)),
          latest_score =
            get_score (last (sort_key (\<lambda>x. stored_created_at x * 1000) (quiz_of uid d))),
          count = length (quiz_of uid d)\<rparr>"
proof -
  assume ne: "quiz_of uid d \<noteq> []"
  then have "sort_key (\<lambda>x. stored_created_at x * 1000) (quiz_of uid d) \<noteq> []"
    by (metis length_sort length_0_conv)
  then show ?thesis
    using ne
    by (simp add: get_quiz_stats_def get_documents_all sorted_py_from_bson Let_def last_map
        comp_def)
qed

text \<open>The latest record, as the last of those with the greatest stored created_at.\<close>

lemma latest_stored:
  assumes "xs \<noteq> []"
  shows "last (sort_key (\<lambda>x. stored_created_at x * 1000) xs) =
         last (filter (\<lambda>y. stored_created_at y = Max (stored_created_at ` set xs)) xs)"
  by (simp add: last_sort_key [OF assms] Max_times_1000 [OF assms])

lemma get_recent_quizzes_Some:
  "get_recent_quizzes uid limit (Some d) =
     Inr (map QuizDoc_from_bson
            (rev (sort_key (\<lambda>x. stored_created_at x * 1000)
                    (rev (take (nat limit) (quiz_of uid d))))))"
  by (simp add: get_recent_quizzes_def get_documents_limit sorted_py_reverse_from_bson)

text \<open>With a non-negative limit the recent list has at most that many documents.\<close>

lemma get_recent_quizzes_length:
  "0 \<le> limit \<Longrightarrow> get_recent_quizzes uid limit (Some d) = Inr ys \<Longrightarrow> int (length ys) \<le> limit"
  by (auto simp: get_recent_quizzes_Some)

subsection \<open>The resume upsert\<close>

lemma upsert_resume_Some:
  "upsert_resume now1 now2 p (Some d) =
     (Inr True,
      Some (d\<lparr>resume := update_one (r_user_id p) (resume_fields now1 now2 p) (resume d)\<rparr>))"
  by (simp add: upsert_resume_def resume_fields_def ResumeIn_model_dump_def
      setdefault_created_at_def Let_def)

text \<open>The update binds every key, so \<^verbatim>\<open>$set\<close> leaves nothing of the stored document.\<close>

lemma set_fields_resume_fields:
  "set_fields x (resume_fields now1 now2 p) = resume_fields now1 now2 p"
  by (simp add: set_fields_def resume_fields_def ResumeIn_model_dump_def set_key_def
      ResumeDoc_to_bson_def)

lemma filter_update_one:
  assumes "rdoc_user_id upd = Some u" "\<And>x. set_fields x upd = upd"
  shows "filter (\<lambda>x. rdoc_user_id x = Some u) (update_one u upd xs) =
         (case filter (\<lambda>x. rdoc_user_id x = Some u) xs of [] \<Rightarrow> [upd] | y # ys \<Rightarrow> upd # ys)"
  using assms by (induction xs) auto

lemma resume_of_upsert:
  "r_user_id p = u \<Longrightarrow>
   resume_of u (d\<lparr>resume := update_one u (resume_fields now1 now2 p) (resume d)\<rparr>) =
     (case resume_of u d of [] \<Rightarrow> [resume_fields now1 now2 p]
      | y # ys \<Rightarrow> resume_fields now1 now2 p # ys)"
  unfolding resume_of_def
  using filter_update_one [of "resume_fields now1 now2 p" u "resume d"]
  by (simp add: set_fields_resume_fields)
     (simp add: resume_fields_def ResumeIn_model_dump_def ResumeDoc_to_bson_def)

lemma post_api_resume_Some:
  "rbody_user_id b = Some u \<Longrightarrow>
   \<exists>p. validate_ResumeIn b = Inr p \<and> r_user_id p = u \<and>
       post_api_resume now1 now2 b (Some d) =
         (Inr True, Some (d\<lparr>resume := update_one u (resume_fields now1 now2 p) (resume d)\<rparr>))"
  by (simp add: post_api_resume_def validate_ResumeIn_def upsert_resume_Some)

section \<open>The claims\<close>

subsection \<open>C1: a second upsert and \<^verbatim>\<open>created_at\<close>\<close>

text \<open>
  C1 says that an upsert for a user who already has a stored profile keeps the
  \<^verbatim>\<open>created_at\<close> of the first write and sets \<^verbatim>\<open>updated_at\<close> to the time of the new
  write. The handler calls \<^verbatim>\<open>setdefault\<close> on the dict it has just dumped from the
  payload, which never has the key, so the key is always bound to the new clock reading
  and \<^verbatim>\<open>$set\<close> writes it over the stored one. Two upserts for the user \<open>u\<close>, with clock
  readings at the milliseconds 10, 20 and then 30, 40: the first leaves a document whose
  \<^verbatim>\<open>created_at\<close> is 20, the second leaves one document whose \<^verbatim>\<open>created_at\<close> is 40.
\<close>

theorem upsert_resume_created_at_overwritten:
  "snd (upsert_resume 10000 20000 (resume_in ''u'' None []) (Some empty_database)) =
     Some \<lparr>quiz = [], resume = [resume_doc ''u'' None [] (Some 10) (Some 20)]\<rparr> \<and>
   snd (upsert_resume 30000 40000 (resume_in ''u'' None [])
     (snd (upsert_resume 10000 20000 (resume_in ''u'' None []) (Some empty_database)))) =
     Some \<lparr>quiz = [], resume = [resume_doc ''u'' None [] (Some 30) (Some 40)]\<rparr>"
  by (simp add: upsert_resume_def resume_in_def empty_database_def ResumeIn_model_dump_def
      setdefault_created_at_def set_fields_def set_key_def filter_doc_def resume_doc_def
      ResumeDoc_to_bson_def)

subsection \<open>C2: the recent list\<close>

text \<open>
  C2 says that the recent list holds the \<open>limit\<close> most recent quiz records of the user,
  newest first. The handler passes the limit to the store and sorts what comes back, so
  the list holds the first \<open>limit\<close> records in the store's order, newest first among
  those. Three submissions at the milliseconds 1, 2 and 3 and a limit of 2 give the
  records of the milliseconds 2 and 1: the most recent record is not in the list.
\<close>

theorem recent_quizzes_limit_before_sort:
  "get_recent_quizzes ''u'' 2
     (snd (create_quiz_result 3000 3000 (quiz_in ''u'' 90)
       (snd (create_quiz_result 2000 2000 (quiz_in ''u'' 80)
         (snd (create_quiz_result 1000 1000 (quiz_in ''u'' 70) (Some empty_database)))))))
   = Inr [quiz_doc ''u'' (Some 80) (Some (Naive 2000)) (Some (Naive 2000)),
          quiz_doc ''u'' (Some 70) (Some (Naive 1000)) (Some (Naive 1000))]"
  by (simp add: get_recent_quizzes_def get_documents_def create_quiz_result_def
      create_document_def QuizIn_model_dump_def quiz_in_def quiz_doc_def empty_database_def
      sorted_py_reverse_def mixed_keys_def created_at_key_def QuizDoc_to_bson_def
      QuizDoc_from_bson_def datetime_of_bson_def)

subsection \<open>C3: the bounds of a quiz submission\<close>

text \<open>
  C3: a quiz submission whose score is outside [0,100], or whose total_questions is below
  1, or whose correct_answers is below 0, fails with ValidationError and leaves the store
  as it was; a submission whose three fields are within these bounds, and that names its
  user, passes validation with the fields it gave.
\<close>

theorem quiz_bounds_validation:
  "((\<exists>v. body_score b = Some v \<and> (v < 0 \<or> 100 < v)) \<or>
    (\<exists>v. body_total_questions b = Some v \<and> v < 1) \<or>
    (\<exists>v. body_correct_answers b = Some v \<and> v < 0)
      \<longrightarrow> post_api_quiz now1 now2 b s = (Inl ValidationError, s)) \<and>
   (body_user_id b = Some u \<and> body_score b = Some sc \<and> body_total_questions b = Some tq \<and>
    body_correct_answers b = Some ca \<and> 0 \<le> sc \<and> sc \<le> 100 \<and> 1 \<le> tq \<and> 0 \<le> ca
      \<longrightarrow> validate_QuizIn b =
            Inr \<lparr>user_id = u, score = sc, total_questions = tq, correct_answers = ca,
                 feedback = body_feedback b\<rparr>)"
  by (auto simp: post_api_quiz_def validate_QuizIn_def split: option.splits)

text \<open>
  C3 at a score of 101, at no question, at a negative number of correct answers, and at
  the edges of the three ranges.
\<close>

theorem quiz_bounds_validation_witness:
  "post_api_quiz 1 2 (quiz_body ''u'' 101 10 5) (Some empty_database)
     = (Inl ValidationError, Some empty_database) \<and>
   post_api_quiz 1 2 (quiz_body ''u'' 50 0 5) (Some empty_database)
     = (Inl ValidationError, Some empty_database) \<and>
   post_api_quiz 1 2 (quiz_body ''u'' 50 10 (-1)) (Some empty_database)
     = (Inl ValidationError, Some empty_database) \<and>
   validate_QuizIn (quiz_body ''u'' 100 1 0) =
     Inr \<lparr>user_id = ''u'', score = 100, total_questions = 1, correct_answers = 0,
          feedback = None\<rparr>"
  using quiz_bounds_validation [of "quiz_body ''u'' 101 10 5" 1 2 "Some empty_database"]
        quiz_bounds_validation [of "quiz_body ''u'' 50 0 5" 1 2 "Some empty_database"]
        quiz_bounds_validation [of "quiz_body ''u'' 50 10 (-1)" 1 2 "Some empty_database"]
        quiz_bounds_validation [where b = "quiz_body ''u'' 100 1 0" and u = "''u''"
          and sc = 100 and tq = 1 and ca = 0]
  by (simp add: quiz_body_def)

subsection \<open>C4: two upserts for one user\<close>

text \<open>
  C4: two resume upserts with the same user_id, on a store that holds at most one profile
  of that user, leave exactly one profile of the user, and each of its fields is what the
  second body gave: the value of the second body, or the declared default (null for a
  scalar, the empty list for a list) when the second body left the field out. Nothing of
  the first body remains.
\<close>

theorem upsert_twice_replaces:
  assumes "rbody_user_id b1 = Some u" and "rbody_user_id b2 = Some u"
    and "length (resume_of u d) \<le> 1"
  shows "\<exists>d' x.
     snd (post_api_resume t3 t4 b2 (snd (post_api_resume t1 t2 b1 (Some d)))) = Some d' \<and>
     resume_of u d' = [x] \<and>
     rdoc_user_id x = Some u \<and>
     rdoc_email x = Some (rbody_email b2) \<and>
     rdoc_linkedin x = Some (rbody_linkedin b2) \<and>
     rdoc_twitter x = Some (rbody_twitter b2) \<and>
     rdoc_summary x = Some (rbody_summary b2) \<and>
     rdoc_skills x = Some (case rbody_skills b2 of None \<Rightarrow> [] | Some v \<Rightarrow> v) \<and>
     rdoc_experiences x = Some (case rbody_experiences b2 of None \<Rightarrow> [] | Some v \<Rightarrow> v) \<and>
     rdoc_education x = Some (case rbody_education b2 of None \<Rightarrow> [] | Some v \<Rightarrow> v) \<and>
     rdoc_projects x = Some (case rbody_projects b2 of None \<Rightarrow> [] | Some v \<Rightarrow> v)"
proof -
  obtain p1 where p1: "r_user_id p1 = u"
    "post_api_resume t1 t2 b1 (Some d) =
       (Inr True, Some (d\<lparr>resume := update_one u (resume_fields t1 t2 p1) (resume d)\<rparr>))"
    using post_api_resume_Some [OF assms(1)] by blast
  let ?d1 = "d\<lparr>resume := update_one u (resume_fields t1 t2 p1) (resume d)\<rparr>"
  obtain p2 where p2: "validate_ResumeIn b2 = Inr p2" "r_user_id p2 = u"
    "post_api_resume t3 t4 b2 (Some ?d1) =
       (Inr True, Some (?d1\<lparr>resume := update_one u (resume_fields t3 t4 p2) (resume ?d1)\<rparr>))"
    using post_api_resume_Some [OF assms(2)] by blast
  let ?d2 = "?d1\<lparr>resume := update_one u (resume_fields t3 t4 p2) (resume ?d1)\<rparr>"
  have one: "resume_of u ?d1 = [resume_fields t1 t2 p1]"
    using assms(3) by (auto simp: resume_of_upsert [OF p1(1)] split: list.splits)
  have two: "resume_of u ?d2 = [resume_fields t3 t4 p2]"
    by (simp only: resume_of_upsert [OF p2(2)] one list.case)
  have p2_eq: "p2 = \<lparr>r_user_id = u, email = rbody_email b2, linkedin = rbody_linkedin b2,
               twitter = rbody_twitter b2, summary = rbody_summary b2,
               skills = list_default (rbody_skills b2),
               experiences = list_default (rbody_experiences b2),
               education = list_default (rbody_education b2),
               projects = list_default (rbody_projects b2)\<rparr>"
    using p2(1) assms(2) by (simp add: validate_ResumeIn_def)
  have dumped: "resume_fields t3 t4 p2 =
      \<lparr>rdoc_user_id = Some u, rdoc_email = Some (rbody_email b2),
       rdoc_linkedin = Some (rbody_linkedin b2), rdoc_twitter = Some (rbody_twitter b2),
       rdoc_summary = Some (rbody_summary b2),
       rdoc_skills = Some (list_default (rbody_skills b2)),
       rdoc_experiences = Some (list_default (rbody_experiences b2)),
       rdoc_education = Some (list_default (rbody_education b2)),
       rdoc_projects = Some (list_default (rbody_projects b2)),
       rdoc_updated_at = Some (t3 div 1000), rdoc_created_at = Some (t4 div 1000)\<rparr>"
    by (simp add: p2_eq resume_fields_def ResumeIn_model_dump_def ResumeDoc_to_bson_def)
  have "snd (post_api_resume t3 t4 b2 (snd (post_api_resume t1 t2 b1 (Some d)))) = Some ?d2"
    by (simp only: p1(2) p2(3) snd_conv)
  moreover have "resume_of u ?d2 = [resume_fields t3 t4 p2]" by (rule two)
  ultimately show ?thesis
    by (intro exI [of _ ?d2] exI [of _ "resume_fields t3 t4 p2"])
       (simp add: dumped list_default_def)
qed

text \<open>
  C4 on the empty store: a first body with an email and one skill, a second body with
  neither. The one profile left has a null email and no skill.
\<close>

theorem upsert_twice_replaces_witness:
  "\<exists>d' x.
     snd (post_api_resume 3 4 (resume_body ''u'' None None)
       (snd (post_api_resume 1 2 (resume_body ''u'' (Some ''a@b.c'') (Some [''sql'']))
          (Some empty_database)))) = Some d' \<and>
     resume_of ''u'' d' = [x] \<and> rdoc_email x = Some None \<and> rdoc_skills x = Some []"
proof -
  let ?b1 = "resume_body ''u'' (Some ''a@b.c'') (Some [''sql''])"
  let ?b2 = "resume_body ''u'' None None"
  have h1: "rbody_user_id ?b1 = Some ''u''" and h2: "rbody_user_id ?b2 = Some ''u''"
    by (simp_all add: resume_body_def)
  have h3: "length (resume_of ''u'' empty_database) \<le> 1"
    by (simp add: resume_of_def empty_database_def)
  obtain d' x where
    "snd (post_api_resume 3 4 ?b2 (snd (post_api_resume 1 2 ?b1 (Some empty_database)))) = Some d'"
    "resume_of ''u'' d' = [x]" "rdoc_email x = Some (rbody_email ?b2)"
    "rdoc_skills x = Some (case rbody_skills ?b2 of None \<Rightarrow> [] | Some v \<Rightarrow> v)"
    using upsert_twice_replaces [OF h1 h2 h3, of 3 4 1 2] by blast
  then show ?thesis by (simp add: resume_body_def)
qed

subsection \<open>C5: the statistics of a user without records\<close>

text \<open>
  C5: for a user with no stored quiz record the statistics are the success value with
  average_score 0, total_questions 0, latest_score 0 and count 0.
\<close>

theorem stats_zero_state:
  "quiz_of uid d = [] \<Longrightarrow>
   get_quiz_stats uid (Some d) =
     Inr \<lparr>average_score = PyInt 0, stats_total_questions = 0, latest_score = 0, count = 0\<rparr>"
  by (simp add: get_quiz_stats_def get_documents_all)

text \<open>C5 for a user without records, on a store that holds a record of another user.\<close>

theorem stats_zero_state_witness:
  "get_quiz_stats ''bob''
     (Some \<lparr>quiz = [quiz_doc ''alice'' (Some 80) (Some 7) (Some 7)], resume = []\<rparr>) =
     Inr \<lparr>average_score = PyInt 0, stats_total_questions = 0, latest_score = 0, count = 0\<rparr>"
  using stats_zero_state [of "''bob''"
      "\<lparr>quiz = [quiz_doc ''alice'' (Some 80) (Some 7) (Some 7)], resume = []\<rparr>"]
  by (simp add: quiz_of_def quiz_doc_def)

subsection \<open>C6: the latest score\<close>

text \<open>
  C6: for a user with at least one stored quiz record, latest_score is the score of the
  record with the greatest stored created_at: no record of the user has a greater one.
  Records that share the greatest created_at keep the order they have in the store, and
  the one that comes last among them is taken: every record stored after it has a
  smaller created_at.
\<close>

theorem stats_latest_score:
  "quiz_of uid d \<noteq> [] \<Longrightarrow>
   \<exists>r k. get_quiz_stats uid (Some d) = Inr r \<and> k < length (quiz_of uid d) \<and>
     latest_score r = get_score (quiz_of uid d ! k) \<and>
     (\<forall>j < length (quiz_of uid d).
        stored_created_at (quiz_of uid d ! j) \<le> stored_created_at (quiz_of uid d ! k)) \<and>
     (\<forall>j. k < j \<and> j < length (quiz_of uid d) \<longrightarrow>
        stored_created_at (quiz_of uid d ! j) < stored_created_at (quiz_of uid d ! k))"
proof -
  assume ne: "quiz_of uid d \<noteq> []"
  let ?xs = "quiz_of uid d"
  obtain k where k: "k < length ?xs"
    "last (sort_key (\<lambda>x. stored_created_at x * 1000) ?xs) = ?xs ! k"
    "\<forall>j < length ?xs. stored_created_at (?xs ! j) * 1000 \<le> stored_created_at (?xs ! k) * 1000"
    "\<forall>j. k < j \<and> j < length ?xs \<longrightarrow>
       stored_created_at (?xs ! j) * 1000 < stored_created_at (?xs ! k) * 1000"
    using last_sort_key_nth [OF ne, of "\<lambda>x. stored_created_at x * 1000"] by blast
  let ?r = "\<lparr>average_score = PyRound2 (sum_list (map get_score ?xs)) (length ?xs),
             stats_total_questions = sum_list (map get_total_questions ?xs),
             latest_score = get_score (?xs ! k), count = length ?xs\<rparr>"
  have "get_quiz_stats uid (Some d) = Inr ?r"
    by (simp add: get_quiz_stats_nonempty [OF ne] k(2))
  with k show ?thesis
    by (intro exI [of _ ?r] exI [of _ k]) simp
qed

text \<open>
  C6 on four records of the user, the first and the third at the same greatest
  millisecond, the last stored the oldest: the score of the third is the latest.
\<close>

theorem stats_latest_score_witness:
  "\<exists>r. get_quiz_stats ''u''
          (Some \<lparr>quiz = [quiz_doc ''u'' (Some 70) (Some 9) (Some 9),
                         quiz_doc ''u'' (Some 80) (Some 4) (Some 4),
                         quiz_doc ''v'' (Some 60) (Some 12) (Some 12),
                         quiz_doc ''u'' (Some 90) (Some 9) (Some 9),
                         quiz_doc ''u'' (Some 50) (Some 2) (Some 2)],
                 resume = []\<rparr>) = Inr r \<and> latest_score r = 90"
proof -
  let ?d = "\<lparr>quiz = [quiz_doc ''u'' (Some 70) (Some 9) (Some 9),
                     quiz_doc ''u'' (Some 80) (Some 4) (Some 4),
                     quiz_doc ''v'' (Some 60) (Some 12) (Some 12),
                     quiz_doc ''u'' (Some 90) (Some 9) (Some (9::millis)),
                     quiz_doc ''u'' (Some 50) (Some 2) (Some 2)],
             resume = []\<rparr>"
  have xs: "quiz_of ''u'' ?d =
      [quiz_doc ''u'' (Some 70) (Some 9) (Some 9), quiz_doc ''u'' (Some 80) (Some 4) (Some 4),
       quiz_doc ''u'' (Some 90) (Some 9) (Some 9), quiz_doc ''u'' (Some 50) (Some 2) (Some 2)]"
    by (simp add: quiz_of_def quiz_doc_def)
  then have ne: "quiz_of ''u'' ?d \<noteq> []" by simp
  obtain r k where rk: "get_quiz_stats ''u'' (Some ?d) = Inr r" "k < length (quiz_of ''u'' ?d)"
    "latest_score r = get_score (quiz_of ''u'' ?d ! k)"
    "\<forall>j < length (quiz_of ''u'' ?d).
        stored_created_at (quiz_of ''u'' ?d ! j) \<le> stored_created_at (quiz_of ''u'' ?d ! k)"
    "\<forall>j. k < j \<and> j < length (quiz_of ''u'' ?d) \<longrightarrow>
        stored_created_at (quiz_of ''u'' ?d ! j) < stored_created_at (quiz_of ''u'' ?d ! k)"
    using stats_latest_score [OF ne] by blast
  note at = rk(2-5) [unfolded xs]
  have "k < 4" using at(1) by simp
  then consider "k = 0" | "k = 1" | "k = 2" | "k = 3" by linarith
  then have "k = 2"
  proof cases
    case 1
    with at(4) [rule_format, of 2] show ?thesis
      by (simp add: stored_created_at_def quiz_doc_def)
  next
    case 2
    with at(3) [rule_format, of 0] show ?thesis
      by (simp add: stored_created_at_def quiz_doc_def)
  next
    case 3
    then show ?thesis .
  next
    case 4
    with at(3) [rule_format, of 0] show ?thesis
      by (simp add: stored_created_at_def quiz_doc_def)
  qed
  with at(2) have "latest_score r = 90"
    by (simp add: get_score_def quiz_doc_def)
  with rk(1) show ?thesis by blast
qed

subsection \<open>C7: the user_id of a submission\<close>

text \<open>
  C7 says that a quiz or resume submission whose user_id is the empty string fails
  validation. Both models declare \<^verbatim>\<open>user_id: str\<close> with no length constraint: a quiz
  body with the empty user_id and fields within their bounds is a valid \<^verbatim>\<open>QuizIn\<close>.
\<close>

theorem empty_user_id_accepted:
  "validate_QuizIn (quiz_body [] 50 10 5) =
     Inr \<lparr>user_id = [], score = 50, total_questions = 10, correct_answers = 5,
          feedback = None\<rparr>"
  by (simp add: validate_QuizIn_def quiz_body_def)

text \<open>
  C7 as amended: a quiz or resume submission with no user_id fails with ValidationError
  (the field is required); a submission whose user_id is the empty string passes
  validation, for a quiz when its three numeric fields are present and within their
  bounds.
\<close>

theorem user_id_required:
  "(body_user_id b = None \<longrightarrow> validate_QuizIn b = Inl ValidationError) \<and>
   (rbody_user_id rb = None \<longrightarrow> validate_ResumeIn rb = Inl ValidationError) \<and>
   (rbody_user_id rb = Some [] \<longrightarrow> (\<exists>p. validate_ResumeIn rb = Inr p \<and> r_user_id p = [])) \<and>
   (body_user_id b = Some [] \<and> body_score b = Some sc \<and> body_total_questions b = Some tq \<and>
    body_correct_answers b = Some ca \<and> 0 \<le> sc \<and> sc \<le> 100 \<and> 1 \<le> tq \<and> 0 \<le> ca
      \<longrightarrow> (\<exists>p. validate_QuizIn b = Inr p \<and> user_id p = []))"
  by (auto simp: validate_QuizIn_def validate_ResumeIn_def split: option.splits)

text \<open>The amended C7 at bodies without user_id and at bodies with the empty one.\<close>

theorem user_id_required_witness:
  "validate_QuizIn ((quiz_body ''u'' 50 10 5)\<lparr>body_user_id := None\<rparr>) = Inl ValidationError \<and>
   validate_ResumeIn ((resume_body ''u'' None None)\<lparr>rbody_user_id := None\<rparr>)
     = Inl ValidationError \<and>
   (\<exists>p. validate_ResumeIn (resume_body [] None None) = Inr p \<and> r_user_id p = []) \<and>
   (\<exists>p. validate_QuizIn (quiz_body [] 50 10 5) = Inr p \<and> user_id p = [])"
  using user_id_required [of "(quiz_body ''u'' 50 10 5)\<lparr>body_user_id := None\<rparr>"
          "(resume_body ''u'' None None)\<lparr>rbody_user_id := None\<rparr>"]
        user_id_required [where rb = "resume_body [] None None" and b = "quiz_body [] 50 10 5"
          and sc = 50 and tq = 10 and ca = 5]
  by (simp add: quiz_body_def resume_body_def)

subsection \<open>C8: the timestamps of a quiz record\<close>

text \<open>
  C8 says that created_at and updated_at of a persisted quiz record are equal, both the
  one insert instant. The handler reads the clock once for each key and the store keeps
  each reading to the millisecond: with the readings 1999 and 2000 microseconds, one
  microsecond apart, the persisted record has created_at at the millisecond 1 and
  updated_at at the millisecond 2.
\<close>

theorem quiz_timestamps_differ:
  "snd (create_quiz_result 1999 2000 (quiz_in ''u'' 70) (Some empty_database)) =
     Some \<lparr>quiz = [quiz_doc ''u'' (Some 70) (Some 1) (Some 2)], resume = []\<rparr>"
  by (simp add: create_quiz_result_def create_document_def QuizIn_model_dump_def quiz_in_def
      quiz_doc_def empty_database_def QuizDoc_to_bson_def)

text \<open>
  C8 as amended: for every successful quiz submission the record appended to the quiz
  collection has created_at and updated_at set by the system, each from a reading of the
  UTC clock of its own (created_at from the first, updated_at from the second) and kept
  to the millisecond; the two are equal exactly when the two readings fall in the same
  millisecond.
\<close>

theorem quiz_timestamps_clock_reads:
  "post_api_quiz now1 now2 body s = (Inr i, s') \<Longrightarrow>
   \<exists>d d' x. s = Some d \<and> s' = Some d' \<and> quiz d' = quiz d @ [x] \<and> i = length (quiz d) \<and>
     doc_created_at x = Some (now1 div 1000) \<and> doc_updated_at x = Some (now2 div 1000) \<and>
     (doc_created_at x = doc_updated_at x) = (now1 div 1000 = now2 div 1000)"
  by (auto simp: post_api_quiz_def create_quiz_result_def create_document_def
      QuizIn_model_dump_def QuizDoc_to_bson_def Let_def split: sum.splits option.splits)

text \<open>
  The amended C8 at a valid submission on the empty store, with the readings 2000 and
  2005 microseconds: both timestamps are at the millisecond 2.
\<close>

theorem quiz_timestamps_clock_reads_witness:
  "post_api_quiz 2000 2005 (quiz_body ''u'' 70 10 5) (Some empty_database) =
     (Inr 0, Some \<lparr>quiz = [quiz_doc ''u'' (Some 70) (Some 2) (Some 2)], resume = []\<rparr>) \<and>
   (\<exists>d d' x. Some empty_database = Some d \<and>
      Some \<lparr>quiz = [quiz_doc ''u'' (Some 70) (Some 2) (Some 2)], resume = []\<rparr> = Some d' \<and>
      quiz d' = quiz d @ [x] \<and> doc_created_at x = Some 2 \<and> doc_updated_at x = Some 2)"
proof -
  have h: "post_api_quiz 2000 2005 (quiz_body ''u'' 70 10 5) (Some empty_database) =
     (Inr 0, Some \<lparr>quiz = [quiz_doc ''u'' (Some 70) (Some 2) (Some 2)], resume = []\<rparr>)"
    by (simp add: post_api_quiz_def validate_QuizIn_def quiz_body_def create_quiz_result_def
        create_document_def QuizIn_model_dump_def quiz_doc_def empty_database_def
        QuizDoc_to_bson_def)
  from quiz_timestamps_clock_reads [OF h] h show ?thesis by auto
qed

subsection \<open>C9: records without created_at\<close>

text \<open>
  C9: when the stored quiz records of a user include one without created_at, the
  statistics and the recent list are still success values: the sort raises no TypeError,
  since every key, that of the undated record included, is naive. The undated record is
  ordered as the earliest possible instant. For the statistics, the latest record is one
  with the greatest stored created_at, and it is a dated record as soon as the user has a
  record dated after \<^verbatim>\<open>datetime.min\<close>. In the recent list, which holds the fetched
  records, no record dated after \<^verbatim>\<open>datetime.min\<close> comes after the undated one.
\<close>

theorem missing_created_at_is_earliest:
  assumes "x \<in> set (quiz_of uid d)" and "doc_created_at x = None"
  shows "(\<exists>r k. get_quiz_stats uid (Some d) = Inr r \<and> k < length (quiz_of uid d) \<and>
            latest_score r = get_score (quiz_of uid d ! k) \<and>
            (\<forall>j < length (quiz_of uid d).
               stored_created_at (quiz_of uid d ! j) \<le> stored_created_at (quiz_of uid d ! k)) \<and>
            (\<forall>y ms. y \<in> set (quiz_of uid d) \<and> doc_created_at y = Some ms \<and> 0 < ms \<longrightarrow>
               doc_created_at (quiz_of uid d ! k) \<noteq> None)) \<and>
         (\<exists>ys. get_recent_quizzes uid limit (Some d) = Inr ys \<and>
            set ys = QuizDoc_from_bson ` set (take (nat limit) (quiz_of uid d)) \<and>
            length ys = length (take (nat limit) (quiz_of uid d)) \<and>
            (\<forall>i j t. i < j \<and> j < length ys \<and> ys ! i = QuizDoc_from_bson x \<and>
               doc_created_at (ys ! j) = Some t \<longrightarrow> instant t = 0))"
proof (intro conjI)
  let ?xs = "quiz_of uid d"
  have ne: "?xs \<noteq> []" using assms(1) by auto
  obtain k where k: "k < length ?xs"
    "last (sort_key (\<lambda>x. stored_created_at x * 1000) ?xs) = ?xs ! k"
    "\<forall>j < length ?xs. stored_created_at (?xs ! j) * 1000 \<le> stored_created_at (?xs ! k) * 1000"
    using last_sort_key_nth [OF ne, of "\<lambda>x. stored_created_at x * 1000"] by blast
  let ?r = "\<lparr>average_score = PyRound2 (sum_list (map get_score ?xs)) (length ?xs),
             stats_total_questions = sum_list (map get_total_questions ?xs),
             latest_score = get_score (?xs ! k), count = length ?xs\<rparr>"
  have stats: "get_quiz_stats uid (Some d) = Inr ?r"
    by (simp add: get_quiz_stats_nonempty [OF ne] k(2))
  have dated: "doc_created_at (?xs ! k) \<noteq> None"
    if y: "y \<in> set ?xs" "doc_created_at y = Some ms" "0 < ms" for y ms
  proof -
    obtain j where j: "j < length ?xs" "?xs ! j = y"
      using y(1) by (auto simp: in_set_conv_nth)
    have "stored_created_at y \<le> stored_created_at (?xs ! k)"
      using k(3) j by auto
    then have "0 < stored_created_at (?xs ! k)"
      using y(2,3) by (simp add: stored_created_at_def)
    then show ?thesis by (auto simp: stored_created_at_def split: option.splits)
  qed
  show "\<exists>r k. get_quiz_stats uid (Some d) = Inr r \<and> k < length ?xs \<and>
            latest_score r = get_score (?xs ! k) \<and>
            (\<forall>j < length ?xs. stored_created_at (?xs ! j) \<le> stored_created_at (?xs ! k)) \<and>
            (\<forall>y ms. y \<in> set ?xs \<and> doc_created_at y = Some ms \<and> 0 < ms \<longrightarrow>
               doc_created_at (?xs ! k) \<noteq> None)"
    using stats k dated by (intro exI [of _ ?r] exI [of _ k]) auto
next
  let ?f = "\<lambda>x. stored_created_at x * 1000"
  let ?zs = "take (nat limit) (quiz_of uid d)"
  let ?ws = "rev (sort_key ?f (rev ?zs))"
  let ?ys = "map QuizDoc_from_bson ?ws"
  have recent: "get_recent_quizzes uid limit (Some d) = Inr ?ys"
    by (rule get_recent_quizzes_Some)
  have "sorted (rev (map ?f ?ws))"
    by (simp add: rev_map)
  then have desc: "?f (?ws ! j) \<le> ?f (?ws ! i)" if "i \<le> j" "j < length ?ws" for i j
    using sorted_rev_nth_mono [of "map ?f ?ws" i j] that by simp
  have after: "instant t = 0"
    if "i < j" "j < length ?ys" "?ys ! i = QuizDoc_from_bson x" "doc_created_at (?ys ! j) = Some t"
    for i j t
  proof -
    have len: "j < length ?ws" "i < length ?ws" using that(1,2) by simp_all
    have "instant (created_at_key (?ys ! i)) = 0"
      using that(3) assms(2) by (simp add: created_at_key_def datetime_min_def)
    then have "?f (?ws ! i) = 0"
      using len(2) by (simp add: created_at_key_instant)
    then have "?f (?ws ! j) = 0"
      using desc [of i j] that(1) len(1) by simp
    then have "instant (created_at_key (?ys ! j)) = 0"
      using len(1) by (simp add: created_at_key_instant)
    then show ?thesis
      using that(4) by (simp add: created_at_key_def)
  qed
  show "\<exists>ys. get_recent_quizzes uid limit (Some d) = Inr ys \<and>
            set ys = QuizDoc_from_bson ` set ?zs \<and> length ys = length ?zs \<and>
            (\<forall>i j t. i < j \<and> j < length ys \<and> ys ! i = QuizDoc_from_bson x \<and>
               doc_created_at (ys ! j) = Some t \<longrightarrow> instant t = 0)"
    using recent after by (intro exI [of _ ?ys]) (auto simp del: length_take)
qed

text \<open>
  C9 on two records, one without created_at: the dated record is the latest, and it
  comes first in the recent list although it is stored second.
\<close>

theorem missing_created_at_is_earliest_witness:
  "get_quiz_stats ''u''
     (Some \<lparr>quiz = [quiz_doc ''u'' (Some 70) (Some 9) (Some 9),
                    quiz_doc ''u'' (Some 80) None None],
            resume = []\<rparr>)
     = Inr \<lparr>average_score = PyRound2 150 2, stats_total_questions = 20, latest_score = 70,
            count = 2\<rparr> \<and>
   get_recent_quizzes ''u'' 5
     (Some \<lparr>quiz = [quiz_doc ''u'' (Some 80) None None,
                    quiz_doc ''u'' (Some 70) (Some 9) (Some 9)],
            resume = []\<rparr>)
     = Inr [quiz_doc ''u'' (Some 70) (Some (Naive 9000)) (Some (Naive 9000)),
            quiz_doc ''u'' (Some 80) None None]"
  using missing_created_at_is_earliest [of "quiz_doc ''u'' (Some 80) None None" "''u''"
      "\<lparr>quiz = [quiz_doc ''u'' (Some 70) (Some 9) (Some 9),
                quiz_doc ''u'' (Some 80) None None],
        resume = []\<rparr>" 5]
     missing_created_at_is_earliest [of "quiz_doc ''u'' (Some 80) None None" "''u''"
      "\<lparr>quiz = [quiz_doc ''u'' (Some 80) None None,
                quiz_doc ''u'' (Some 70) (Some 9) (Some 9)],
        resume = []\<rparr>" 5]
  by (simp add: quiz_of_def quiz_doc_def created_at_key_def get_score_def datetime_min_def
      get_quiz_stats_def get_documents_def sorted_py_def get_total_questions_def
      get_recent_quizzes_def sorted_py_reverse_def mixed_keys_def QuizDoc_from_bson_def
      datetime_of_bson_def)

subsection \<open>C10: records without score\<close>

text \<open>
  C10: for a user with at least one stored quiz record, a record without score counts as
  a score of 0. The mean behind average_score divides the sum of the scores that are
  there by the number of all records, count is the number of all records, and
  latest_score is 0 when the latest record, the last of those with the greatest stored
  created_at, has no score.
\<close>

theorem missing_score_counts_as_zero:
  assumes "quiz_of uid d \<noteq> []"
  shows "\<exists>r. get_quiz_stats uid (Some d) = Inr r \<and>
     average_score r = PyRound2 (sum_list (List.map_filter doc_score (quiz_of uid d)))
                                (length (quiz_of uid d)) \<and>
     count r = length (quiz_of uid d) \<and>
     (doc_score (last (filter (\<lambda>y. stored_created_at y =
                                     Max (stored_created_at ` set (quiz_of uid d)))
                         (quiz_of uid d))) = None \<longrightarrow> latest_score r = 0)"
  using assms
  by (simp add: get_quiz_stats_nonempty latest_stored sum_get_score get_score_def)

text \<open>
  C10 on a record with the score 70 and a later record without score: the mean is that
  of 70 over 2 records and the latest score is 0.
\<close>

theorem missing_score_counts_as_zero_witness:
  "get_quiz_stats ''u''
     (Some \<lparr>quiz = [quiz_doc ''u'' (Some 70) (Some 4) (Some 4),
                    quiz_doc ''u'' None (Some 9) (Some 9)],
            resume = []\<rparr>)
     = Inr \<lparr>average_score = PyRound2 70 2, stats_total_questions = 20, latest_score = 0,
            count = 2\<rparr>"
  using missing_score_counts_as_zero [of "''u''"
      "\<lparr>quiz = [quiz_doc ''u'' (Some 70) (Some 4) (Some 4),
                quiz_doc ''u'' None (Some 9) (Some 9)],
        resume = []\<rparr>"]
  by (simp add: quiz_of_def quiz_doc_def created_at_key_def get_score_def
      get_quiz_stats_def get_documents_def sorted_py_def get_total_questions_def
      mixed_keys_def QuizDoc_from_bson_def datetime_of_bson_def)


end
